theory Spec2Isabelle
  imports Main
begin

section \<open>The API service fixture: \<^verbatim>\<open>apps/api-service/src/main.py\<close>\<close>

text \<open>
  The module builds a FastAPI application, declares one response model, registers two
  GET endpoints whose handlers return constants, and starts a uvicorn server when it is
  run as the main program. The web framework, the validation library and the server are
  third-party code that the module only configures. The embedding keeps of them what the
  module passes to them and what it leaves to their defaults: the application's keyword
  arguments, the route table (the documentation routes that the constructor installs,
  then the routes added by the decorators), and the arguments of the call that starts
  the server.
\<close>

subsection \<open>Values\<close>

text \<open>
  \<^verbatim>\<open>class HealthResponse(BaseModel): status: str; version: str\<close>
  Both fields are required strings.
\<close>

record HealthResponse =
  status :: string
  version :: string

text \<open>
  The Python values the handlers build: integers, strings, lists, dictionaries with
  string keys (an association list, since a dictionary keeps the order of insertion) and
  instances of the response model.
\<close>

datatype pyval =
    PyInt int
  | PyStr string
  | PyList "pyval list"
  | PyDict "(string \<times> pyval) list"
  | PyModel HealthResponse

text \<open>The JSON documents that are sent as response bodies.\<close>

datatype json =
    JInt int
  | JStr string
  | JArr "json list"
  | JObj "(string \<times> json) list"

text \<open>
  The framework turns a handler's return value into JSON: a model instance becomes the
  object of its fields, in the order of their declaration; the containers are encoded
  element by element.
\<close>

fun jsonable_encoder :: "pyval \<Rightarrow> json" where
  "jsonable_encoder (PyInt i) = JInt i"
| "jsonable_encoder (PyStr s) = JStr s"
| "jsonable_encoder (PyList vs) = JArr (map jsonable_encoder vs)"
| "jsonable_encoder (PyDict kvs) = JObj (map (\<lambda>(k, v). (k, jsonable_encoder v)) kvs)"
| "jsonable_encoder (PyModel m) =
     JObj [(''status'', JStr (HealthResponse.status m)),
           (''version'', JStr (HealthResponse.version m))]"

text \<open>The model instances that occur in a value.\<close>

fun models_of :: "pyval \<Rightarrow> HealthResponse list" where
  "models_of (PyInt i) = []"
| "models_of (PyStr s) = []"
| "models_of (PyList vs) = concat (map models_of vs)"
| "models_of (PyDict kvs) = concat (map (\<lambda>(k, v). models_of v) kvs)"
| "models_of (PyModel m) = [m]"

subsection \<open>The application object and its route table\<close>

datatype http_method = GET | HEAD | POST | PUT | DELETE | OPTIONS | PATCH

text \<open>The functions of the module that are registered as endpoints, by name.\<close>

datatype endpoint = Health_check | Get_users

text \<open>The classes of the module that are given as \<^verbatim>\<open>response_model\<close>.\<close>

datatype model = HealthResponse_model

record route =
  route_method :: http_method
  route_path :: string
  response_model :: "model option"
  route_endpoint :: endpoint

text \<open>
  The entries of an application's route table are of two kinds: \<open>Route p\<close> is a page
  that the framework serves itself at path \<open>p\<close>, for GET and HEAD; \<open>APIRoute r\<close> is
  an endpoint registered through a decorator.
\<close>

datatype base_route = Route string | APIRoute route

text \<open>
  \<^verbatim>\<open>FastAPI(title=..., version=...)\<close>. The module passes neither
  \<^verbatim>\<open>openapi_url\<close> nor \<^verbatim>\<open>docs_url\<close> nor \<^verbatim>\<open>redoc_url\<close>, so the constructor
  installs its four documentation routes, in this order, before any route of the module.
\<close>

record fastapi =
  title :: string
  version :: string
  routes :: "base_route list"

definition FastAPI :: "string \<Rightarrow> string \<Rightarrow> fastapi" where
  "FastAPI t v =
     \<lparr>title = t, fastapi.version = v,
      routes = [Route ''/openapi.json'', Route ''/docs'', Route ''/docs/oauth2-redirect'',
                Route ''/redoc'']\<rparr>"

text \<open>
  \<^verbatim>\<open>@app.get(path, response_model=...)\<close> applied to a function: the route is appended
  to the application's table, for the method GET.
\<close>

definition app_get :: "string \<Rightarrow> model option \<Rightarrow> endpoint \<Rightarrow> fastapi \<Rightarrow> fastapi" where
  "app_get p rm f a =
     a\<lparr>routes := routes a @
        [APIRoute \<lparr>route_method = GET, route_path = p, response_model = rm,
                   route_endpoint = f\<rparr>]\<rparr>"

subsection \<open>Program state\<close>

text \<open>
  A server started by \<^verbatim>\<open>uvicorn.run(app, host=..., port=...)\<close>: the application it
  serves and the address it is bound to.
\<close>

record server =
  server_app :: fastapi
  host :: string
  port :: int

text \<open>
  The state of the program: the module's global \<^verbatim>\<open>app\<close> and the servers that
  have been started. The record is extensible, and the handlers are defined on every
  extension of it: whatever else a process holds is in the extension.
\<close>

record program_state =
  app :: fastapi
  servers :: "server list"

definition uvicorn_run :: "fastapi \<Rightarrow> string \<Rightarrow> int \<Rightarrow> server list \<Rightarrow> server list" where
  "uvicorn_run a h p running = running @ [\<lparr>server_app = a, host = h, port = p\<rparr>]"

subsection \<open>The handlers\<close>

text \<open>
  A handler takes the program state and returns its result with the state after the call.
  The result is a sum: \<open>Inl\<close> is an exception that leaves the function, \<open>Inr\<close> the
  returned value.
\<close>

datatype exn = Exception string

type_synonym 's handler = "'s \<Rightarrow> (exn + pyval) \<times> 's"

text \<open>
  \<^verbatim>\<open>
  def health_check():
      return HealthResponse(status="healthy", version="1.0.0")
  \<close>
\<close>

definition health_check :: "'s handler" where
  "health_check s =
     (Inr (PyModel \<lparr>status = ''healthy'', HealthResponse.version = ''1.0.0''\<rparr>), s)"

text \<open>
  \<^verbatim>\<open>
  def get_users():
      return [{"id": 1, "name": "John"}, {"id": 2, "name": "Jane"}]
  \<close>
\<close>

definition get_users :: "'s handler" where
  "get_users s =
     (Inr (PyList [PyDict [(''id'', PyInt 1), (''name'', PyStr ''John'')],
                   PyDict [(''id'', PyInt 2), (''name'', PyStr ''Jane'')]]), s)"

fun call :: "endpoint \<Rightarrow> 's handler" where
  "call Health_check = health_check"
| "call Get_users = get_users"

subsection \<open>The module body\<close>

text \<open>
  \<^verbatim>\<open>
  app = FastAPI(title="API Service", version="1.0.0")
  @app.get("/health", response_model=HealthResponse)
  def health_check(): ...
  @app.get("/api/users")
  def get_users(): ...
  if __name__ == "__main__":
      import uvicorn
      uvicorn.run(app, host="0.0.0.0", port=8000)
  \<close>
  The body is run with the value of \<^verbatim>\<open>__name__\<close> and the servers that are already
  running in the process; it yields the state with the module's \<^verbatim>\<open>app\<close>.
\<close>

definition main_module :: "string \<Rightarrow> server list \<Rightarrow> program_state" where
  "main_module name running =
     (let a = FastAPI ''API Service'' ''1.0.0'';
          a = app_get ''/health'' (Some HealthResponse_model) Health_check a;
          a = app_get ''/api/users'' None Get_users a
      in \<lparr>app = a,
          servers = (if name = ''__main__''
                     then uvicorn_run a ''0.0.0.0'' 8000 running
                     else running)\<rparr>)"

subsection \<open>Serving requests\<close>

text \<open>
  A request as the router sees it: \<open>req_path\<close> is the path of the request target,
  without the query string and with percent-encoding decoded.
\<close>

record request =
  req_method :: http_method
  req_path :: string
  query :: string
  headers :: "(string \<times> string) list"
  body :: string

text \<open>
  A response is either the answer of an endpoint of the module, with its status code and
  JSON body, or \<open>Framework_response\<close>: an answer that the framework alone decides (one
  of its own pages, no route matches, the handler raises, the returned value does not
  validate against the route's response model). The content of such an answer is outside
  the module and is not modelled.
\<close>

datatype response = Response int json | Framework_response

text \<open>
  The endpoint route that answers a request, if one does. The table is searched in
  order and the first entry with the request's method and path decides: an endpoint
  route is the result, a page of the framework means that no endpoint answers.
\<close>

fun find_route :: "base_route list \<Rightarrow> http_method \<Rightarrow> string \<Rightarrow> route option" where
  "find_route [] m p = None"
| "find_route (Route q # rs) m p =
     (if (m = GET \<or> m = HEAD) \<and> q = p then None else find_route rs m p)"
| "find_route (APIRoute r # rs) m p =
     (if route_method r = m \<and> route_path r = p then Some r else find_route rs m p)"

text \<open>
  The value that is serialised: with a response model the returned value has to be an
  instance of it (other values are left to the framework's validation), without one the
  value is taken as it is.
\<close>

fun validate_response :: "model option \<Rightarrow> pyval \<Rightarrow> pyval option" where
  "validate_response None v = Some v"
| "validate_response (Some HealthResponse_model) (PyModel m) = Some (PyModel m)"
| "validate_response (Some HealthResponse_model) v = None"

text \<open>
  One request: the route that answers it is looked up in the application of the state,
  its endpoint is called, and the value it returns is sent with status 200, the default
  of a route that is registered without a status code.
\<close>

definition serve :: "request \<Rightarrow> 'a program_state_scheme \<Rightarrow> response \<times> 'a program_state_scheme" where
  "serve req s =
     (case find_route (routes (app s)) (req_method req) (req_path req) of
        None \<Rightarrow> (Framework_response, s)
      | Some r \<Rightarrow>
          (case call (route_endpoint r) s of
             (Inl e, s') \<Rightarrow> (Framework_response, s')
           | (Inr v, s') \<Rightarrow>
               (case validate_response (response_model r) v of
                  None \<Rightarrow> (Framework_response, s')
                | Some v' \<Rightarrow> (Response 200 (jsonable_encoder v'), s'))))"

text \<open>The requests of a list, one after the other, each on the state the previous left.\<close>

fun serve_all :: "request list \<Rightarrow> 'a program_state_scheme \<Rightarrow> response list \<times> 'a program_state_scheme" where
  "serve_all [] s = ([], s)"
| "serve_all (req # reqs) s =
     (case serve req s of
        (resp, s') \<Rightarrow> (case serve_all reqs s' of (resps, s'') \<Rightarrow> (resp # resps, s'')))"

subsection \<open>The text of the module\<close>





subsection \<open>The handlers on an object store\<close>

text \<open>
  A list, a dictionary and a model instance are objects with an identity. The store is
  the list of the objects allocated so far, the address of an object is its index, and
  a new object is put at the end. Integers and strings are immutable and held by value.
\<close>

type_synonym addr = nat

datatype atom = AInt int | AStr string

datatype obj =
    ObjList "addr list"
  | ObjDict "(string \<times> atom) list"
  | ObjModel HealthResponse

type_synonym heap = "obj list"

definition alloc :: "obj \<Rightarrow> heap \<Rightarrow> addr \<times> heap" where
  "alloc ob h = (length h, h @ [ob])"

text \<open>
  \<open>health_check\<close> on the store: the constructor call allocates the instance, and its
  address is returned.
\<close>

definition health_check_heap :: "heap \<times> 's \<Rightarrow> (exn + addr) \<times> heap \<times> 's" where
  "health_check_heap hs =
     (case hs of (h, s) \<Rightarrow>
        (case alloc (ObjModel \<lparr>status = ''healthy'', HealthResponse.version = ''1.0.0''\<rparr>) h of
           (a, h1) \<Rightarrow> (Inr a, h1, s)))"

text \<open>
  \<open>get_users\<close> on the store: the two dictionaries are allocated from left to right, then
  the list that holds them, and the address of the list is returned.
\<close>

definition get_users_heap :: "heap \<times> 's \<Rightarrow> (exn + addr) \<times> heap \<times> 's" where
  "get_users_heap hs =
     (case hs of (h, s) \<Rightarrow>
        (case alloc (ObjDict [(''id'', AInt 1), (''name'', AStr ''John'')]) h of
           (d1, h1) \<Rightarrow>
             (case alloc (ObjDict [(''id'', AInt 2), (''name'', AStr ''Jane'')]) h1 of
                (d2, h2) \<Rightarrow>
                  (case alloc (ObjList [d1, d2]) h2 of
                     (l, h3) \<Rightarrow> (Inr l, h3, s)))))"

fun call_heap :: "endpoint \<Rightarrow> heap \<times> 's \<Rightarrow> (exn + addr) \<times> heap \<times> 's" where
  "call_heap Health_check = health_check_heap"
| "call_heap Get_users = get_users_heap"

text \<open>The invocations of a list, one after the other, each on the store the previous left.\<close>

fun call_all_heap :: "endpoint list \<Rightarrow> heap \<times> 's \<Rightarrow> (exn + addr) list \<times> heap \<times> 's" where
  "call_all_heap [] hs = ([], hs)"
| "call_all_heap (e # es) hs =
     (case call_heap e hs of
        (r, hs1) \<Rightarrow> (case call_all_heap es hs1 of (rs, hs2) \<Rightarrow> (r # rs, hs2)))"

text \<open>The addresses that an object holds.\<close>

fun refs :: "obj \<Rightarrow> addr list" where
  "refs (ObjList as) = as"
| "refs (ObjDict kvs) = []"
| "refs (ObjModel m) = []"

text \<open>
  The value of the object at an address, read from the store down to a given depth;
  \<open>None\<close> when the address is not allocated or the depth does not suffice.
\<close>

fun pyval_of_atom :: "atom \<Rightarrow> pyval" where
  "pyval_of_atom (AInt i) = PyInt i"
| "pyval_of_atom (AStr s) = PyStr s"

fun value_of :: "nat \<Rightarrow> heap \<Rightarrow> addr \<Rightarrow> pyval option" where
  "value_of 0 h a = None"
| "value_of (Suc n) h a =
     (if a < length h
      then (case h ! a of
              ObjList as \<Rightarrow> map_option PyList (those (map (value_of n h) as))
            | ObjDict kvs \<Rightarrow> Some (PyDict (map (\<lambda>(k, v). (k, pyval_of_atom v)) kvs))
            | ObjModel m \<Rightarrow> Some (PyModel m))
      else None)"

subsection \<open>Facts about routing and the state\<close>

lemma routes_main_module:
  "routes (app (main_module name running)) =
     [Route ''/openapi.json'', Route ''/docs'', Route ''/docs/oauth2-redirect'',
      Route ''/redoc'',
      APIRoute \<lparr>route_method = GET, route_path = ''/health'',
        response_model = Some HealthResponse_model, route_endpoint = Health_check\<rparr>,
      APIRoute \<lparr>route_method = GET, route_path = ''/api/users'',
        response_model = None, route_endpoint = Get_users\<rparr>]"
  by (simp add: main_module_def FastAPI_def app_get_def Let_def)

lemma find_route_main_module:
  "find_route (routes (app (main_module name running))) m p =
     (if m = GET \<and> p = ''/health''
      then Some \<lparr>route_method = GET, route_path = ''/health'',
                  response_model = Some HealthResponse_model, route_endpoint = Health_check\<rparr>
      else if m = GET \<and> p = ''/api/users''
      then Some \<lparr>route_method = GET, route_path = ''/api/users'',
                  response_model = None, route_endpoint = Get_users\<rparr>
      else None)"
  by (auto simp add: routes_main_module)

lemma serve_health:
  assumes "app s = app (main_module name running)"
    and "req_method req = GET" and "req_path req = ''/health''"
  shows "serve req s =
     (Response 200 (JObj [(''status'', JStr ''healthy''), (''version'', JStr ''1.0.0'')]), s)"
  using assms by (simp add: serve_def find_route_main_module health_check_def)

lemma serve_users:
  assumes "app s = app (main_module name running)"
    and "req_method req = GET" and "req_path req = ''/api/users''"
  shows "serve req s =
     (Response 200 (JArr [JObj [(''id'', JInt 1), (''name'', JStr ''John'')],
                          JObj [(''id'', JInt 2), (''name'', JStr ''Jane'')]]), s)"
  using assms by (simp add: serve_def find_route_main_module get_users_def)


lemma call_state: "snd (call e s) = s"
  by (cases e) (simp_all add: health_check_def get_users_def)

lemma call_returns: "\<exists>v. fst (call e s) = Inr v"
  by (cases e) (simp_all add: health_check_def get_users_def)

lemma serve_state: "snd (serve req s) = s"
proof (cases "find_route (routes (app s)) (req_method req) (req_path req)")
  case None
  then show ?thesis by (simp add: serve_def)
next
  case (Some r)
  obtain res s' where c: "call (route_endpoint r) s = (res, s')"
    by (cases "call (route_endpoint r) s")
  with call_state [of "route_endpoint r" s] have "s' = s" by simp
  with Some c show ?thesis
    by (simp add: serve_def split: sum.splits option.splits)
qed

lemma serve_all_state: "snd (serve_all reqs s) = s"
proof (induction reqs arbitrary: s)
  case Nil
  show ?case by simp
next
  case (Cons req reqs)
  obtain resp s' where a: "serve req s = (resp, s')" by (cases "serve req s")
  with serve_state [of req s] have b: "s' = s" by simp
  obtain resps s'' where c: "serve_all reqs s = (resps, s'')" by (cases "serve_all reqs s")
  with Cons.IH [of s] have "s'' = s" by simp
  with a b c show ?case by simp
qed


lemma health_check_heap_eq:
  "health_check_heap (h, s) =
     (Inr (length h),
      h @ [ObjModel \<lparr>status = ''healthy'', HealthResponse.version = ''1.0.0''\<rparr>], s)"
  by (simp add: health_check_heap_def alloc_def)

lemma get_users_heap_eq:
  "get_users_heap (h, s) =
     (Inr (length h + 2),
      h @ [ObjDict [(''id'', AInt 1), (''name'', AStr ''John'')],
           ObjDict [(''id'', AInt 2), (''name'', AStr ''Jane'')],
           ObjList [length h, length h + 1]], s)"
  by (simp add: get_users_heap_def alloc_def)

lemma value_of_health:
  "value_of 2 (h @ [ObjModel m] @ ys) (length h) = Some (PyModel m)"
  by (simp add: numeral_2_eq_2 nth_append)

lemma value_of_users:
  "value_of 2 (h @ [ObjDict kv1, ObjDict kv2, ObjList [length h, length h + 1]] @ ys)
       (length h + 2) =
     Some (PyList [PyDict (map (\<lambda>(k, v). (k, pyval_of_atom v)) kv1),
                   PyDict (map (\<lambda>(k, v). (k, pyval_of_atom v)) kv2)])"
  by (simp add: numeral_2_eq_2 nth_append)

lemma call_heap_extends: "\<exists>a new. call_heap e (h, s) = (Inr a, h @ new, s)"
  by (cases e) (simp_all add: health_check_heap_eq get_users_heap_eq)

lemma call_all_heap_extends: "\<exists>rs new. call_all_heap es (h, s) = (rs, h @ new, s)"
proof (induction es arbitrary: h)
  case Nil
  show ?case by simp
next
  case (Cons e es)
  obtain a new1 where c: "call_heap e (h, s) = (Inr a, h @ new1, s)"
    using call_heap_extends [of e h s] by blast
  obtain rs new2 where d: "call_all_heap es (h @ new1, s) = (rs, (h @ new1) @ new2, s)"
    using Cons.IH [of "h @ new1"] by blast
  from c d have "call_all_heap (e # es) (h, s) = (Inr a # rs, h @ (new1 @ new2), s)"
    by simp
  then show ?case by blast
qed

lemma call_heap_fresh:
  assumes "call_heap e (h, s) = (r, h', t)"
  shows "t = s \<and> take (length h) h' = h
     \<and> (\<exists>a v. r = Inr a \<and> length h \<le> a \<and> a < length h'
            \<and> list_all (\<lambda>b. length h \<le> b \<and> b < length h') (refs (h' ! a))
            \<and> value_of 2 h' a = Some v \<and> fst (call e s) = Inr v)"
proof (cases e)
  case Health_check
  with assms have r: "r = Inr (length h)"
    and h': "h' = h @ [ObjModel \<lparr>status = ''healthy'', HealthResponse.version = ''1.0.0''\<rparr>]"
    and t: "t = s"
    by (simp_all add: health_check_heap_eq)
  have v: "value_of 2 h' (length h) =
      Some (PyModel \<lparr>status = ''healthy'', HealthResponse.version = ''1.0.0''\<rparr>)"
    using value_of_health [of h _ "[]"] by (simp add: h')
  from Health_check r h' t v show ?thesis
    by (simp add: health_check_def)
next
  case Get_users
  with assms have r: "r = Inr (length h + 2)"
    and h': "h' = h @ [ObjDict [(''id'', AInt 1), (''name'', AStr ''John'')],
           ObjDict [(''id'', AInt 2), (''name'', AStr ''Jane'')],
           ObjList [length h, length h + 1]]"
    and t: "t = s"
    by (simp_all add: get_users_heap_eq)
  have v: "value_of 2 h' (length h + 2) =
      Some (PyList [PyDict [(''id'', PyInt 1), (''name'', PyStr ''John'')],
                    PyDict [(''id'', PyInt 2), (''name'', PyStr ''Jane'')]])"
    using value_of_users [of h _ _ "[]"] by (simp add: h')
  from Get_users r h' t v show ?thesis
    by (simp add: get_users_def nth_append)
qed

lemma call_heap_twice:
  assumes "call_heap e (h, s) = (Inr a1, hs1)" and "call_heap e hs1 = (Inr a2, hs2)"
  shows "a1 \<noteq> a2 \<and> value_of 2 (fst hs2) a1 = value_of 2 (fst hs2) a2"
proof (cases e)
  case Health_check
  with assms(1) have a1: "a1 = length h"
    and hs1: "hs1 = (h @ [ObjModel \<lparr>status = ''healthy'', HealthResponse.version = ''1.0.0''\<rparr>], s)"
    by (simp_all add: health_check_heap_eq)
  from Health_check assms(2) hs1 have a2: "a2 = length h + 1"
    and hs2: "fst hs2 = h @ [ObjModel \<lparr>status = ''healthy'', HealthResponse.version = ''1.0.0''\<rparr>,
                            ObjModel \<lparr>status = ''healthy'', HealthResponse.version = ''1.0.0''\<rparr>]"
    by (auto simp add: health_check_heap_eq)
  from a1 a2 hs2 show ?thesis
    by (simp add: numeral_2_eq_2 nth_append)
next
  case Get_users
  with assms(1) have a1: "a1 = length h + 2"
    and hs1: "hs1 = (h @ [ObjDict [(''id'', AInt 1), (''name'', AStr ''John'')],
           ObjDict [(''id'', AInt 2), (''name'', AStr ''Jane'')],
           ObjList [length h, length h + 1]], s)"
    by (simp_all add: get_users_heap_eq)
  from Get_users assms(2) hs1 have a2: "a2 = length h + 5"
    and hs2: "fst hs2 = h @ [ObjDict [(''id'', AInt 1), (''name'', AStr ''John'')],
           ObjDict [(''id'', AInt 2), (''name'', AStr ''Jane'')],
           ObjList [length h, length h + 1],
           ObjDict [(''id'', AInt 1), (''name'', AStr ''John'')],
           ObjDict [(''id'', AInt 2), (''name'', AStr ''Jane'')],
           ObjList [length h + 3, length h + 4]]"
    by (auto simp add: get_users_heap_eq)
  from a1 a2 hs2 show ?thesis
    by (simp add: numeral_2_eq_2 nth_append)
qed

subsection \<open>The properties of the service\<close>

text \<open>
  Claim C1: the handler \<open>health_check\<close> returns, in every state, the \<open>HealthResponse\<close> with
  status "healthy" and version "1.0.0"; and every GET request for \<open>/health\<close> to a process
  that holds the module's application, whatever its query, headers and body, is answered
  with status 200 and the JSON object of these two fields, in this order.
\<close>

theorem health_endpoint:
  "fst (health_check s) =
     Inr (PyModel \<lparr>status = ''healthy'', HealthResponse.version = ''1.0.0''\<rparr>)
   \<and> (app st = app (main_module name running) \<longrightarrow> req_method req = GET \<longrightarrow> req_path req = ''/health'' \<longrightarrow>
        fst (serve req st) =
          Response 200 (JObj [(''status'', JStr ''healthy''), (''version'', JStr ''1.0.0'')]))"
proof (intro conjI impI)
  show "fst (health_check s) =
     Inr (PyModel \<lparr>status = ''healthy'', HealthResponse.version = ''1.0.0''\<rparr>)"
    by (simp add: health_check_def)
next
  assume a: "app st = app (main_module name running)"
    and m: "req_method req = GET" and p: "req_path req = ''/health''"
  show "fst (serve req st) =
          Response 200 (JObj [(''status'', JStr ''healthy''), (''version'', JStr ''1.0.0'')])"
    by (simp add: serve_health [OF a m p])
qed

theorem health_endpoint_witness:
  "req_method \<lparr>req_method = GET, req_path = ''/health'', query = ''verbose=1'',
            headers = [(''accept'', ''text/html'')], body = ''ping''\<rparr> = GET
   \<and> req_path \<lparr>req_method = GET, req_path = ''/health'', query = ''verbose=1'',
            headers = [(''accept'', ''text/html'')], body = ''ping''\<rparr> = ''/health''
   \<and> fst (health_check (0::nat)) =
       Inr (PyModel \<lparr>status = ''healthy'', HealthResponse.version = ''1.0.0''\<rparr>)
   \<and> fst (serve \<lparr>req_method = GET, req_path = ''/health'', query = ''verbose=1'',
                  headers = [(''accept'', ''text/html'')], body = ''ping''\<rparr>
              (main_module ''__main__'' [])) =
       Response 200 (JObj [(''status'', JStr ''healthy''), (''version'', JStr ''1.0.0'')])"
  using health_endpoint [where s = "0::nat" and st = "main_module ''__main__'' []"
      and name = "''__main__''" and running = "[]"
      and req = "\<lparr>req_method = GET, req_path = ''/health'', query = ''verbose=1'',
                   headers = [(''accept'', ''text/html'')], body = ''ping''\<rparr>"]
  by simp

text \<open>
  Claim C2: the handler \<open>get_users\<close> returns, in every state, the list of the two records
  with id 1, name "John" and id 2, name "Jane", in this order; and every GET request for
  \<open>/api/users\<close> to a process that holds the module's application is answered with status
  200 and the JSON array of these two objects.
\<close>

theorem users_endpoint:
  "fst (get_users s) =
     Inr (PyList [PyDict [(''id'', PyInt 1), (''name'', PyStr ''John'')],
                  PyDict [(''id'', PyInt 2), (''name'', PyStr ''Jane'')]])
   \<and> (app st = app (main_module name running) \<longrightarrow> req_method req = GET \<longrightarrow> req_path req = ''/api/users'' \<longrightarrow>
        fst (serve req st) =
          Response 200 (JArr [JObj [(''id'', JInt 1), (''name'', JStr ''John'')],
                              JObj [(''id'', JInt 2), (''name'', JStr ''Jane'')]]))"
proof (intro conjI impI)
  show "fst (get_users s) =
     Inr (PyList [PyDict [(''id'', PyInt 1), (''name'', PyStr ''John'')],
                  PyDict [(''id'', PyInt 2), (''name'', PyStr ''Jane'')]])"
    by (simp add: get_users_def)
next
  assume a: "app st = app (main_module name running)"
    and m: "req_method req = GET" and p: "req_path req = ''/api/users''"
  show "fst (serve req st) =
          Response 200 (JArr [JObj [(''id'', JInt 1), (''name'', JStr ''John'')],
                              JObj [(''id'', JInt 2), (''name'', JStr ''Jane'')]])"
    by (simp add: serve_users [OF a m p])
qed

theorem users_endpoint_witness:
  "req_method \<lparr>req_method = GET, req_path = ''/api/users'', query = ''page=7'',
            headers = [], body = []\<rparr> = GET
   \<and> req_path \<lparr>req_method = GET, req_path = ''/api/users'', query = ''page=7'',
            headers = [], body = []\<rparr> = ''/api/users''
   \<and> fst (serve \<lparr>req_method = GET, req_path = ''/api/users'', query = ''page=7'',
                  headers = [], body = []\<rparr>
              (main_module ''main'' [])) =
       Response 200 (JArr [JObj [(''id'', JInt 1), (''name'', JStr ''John'')],
                           JObj [(''id'', JInt 2), (''name'', JStr ''Jane'')]])"
  using users_endpoint [where s = "()" and st = "main_module ''main'' []"
      and name = "''main''" and running = "[]"
      and req = "\<lparr>req_method = GET, req_path = ''/api/users'', query = ''page=7'',
                   headers = [], body = []\<rparr>"]
  by simp




text \<open>
  Claim C4: when the module is run with \<^verbatim>\<open>__name__\<close> equal to "__main__", one server
  is started, after those that were running: it serves the module's application on host
  "0.0.0.0", port 8000.
\<close>

theorem entry_point_binds:
  "servers (main_module ''__main__'' running) =
     running @ [\<lparr>server_app = app (main_module ''__main__'' running),
                 host = ''0.0.0.0'', port = 8000\<rparr>]
   \<and> length (servers (main_module ''__main__'' running)) = Suc (length running)"
  by (simp add: main_module_def uvicorn_run_def Let_def)

theorem entry_point_binds_witness:
  "servers (main_module ''__main__'' []) =
     [\<lparr>server_app = app (main_module ''__main__'' []), host = ''0.0.0.0'', port = 8000\<rparr>]"
  using entry_point_binds [of "[]"] by simp

text \<open>
  Claim C5: in every state \<open>health_check\<close> and \<open>get_users\<close>, and so every
  endpoint of the module, return a value and raise nothing; a request that matches a route
  of the module's application is always answered with status 200 and the handler's value,
  never by the framework's error handling.
\<close>

theorem handlers_return_normally:
  "(\<exists>v. fst (health_check s) = Inr v) \<and> (\<exists>v. fst (get_users s) = Inr v)
   \<and> (\<forall>e. \<exists>v. fst (call e s) = Inr v)
   \<and> (app st = app (main_module name running) \<longrightarrow>
        find_route (routes (app st)) (req_method req) (req_path req) \<noteq> None \<longrightarrow>
        (\<exists>b. fst (serve req st) = Response 200 b))"
proof (intro conjI impI allI)
  show "\<exists>v. fst (health_check s) = Inr v" by (simp add: health_check_def)
  show "\<exists>v. fst (get_users s) = Inr v" by (simp add: get_users_def)
  show "\<exists>v. fst (call e s) = Inr v" for e by (rule call_returns)
next
  assume a: "app st = app (main_module name running)"
    and b: "find_route (routes (app st)) (req_method req) (req_path req) \<noteq> None"
  from a b have m: "req_method req = GET"
    and p: "req_path req = ''/health'' \<or> req_path req = ''/api/users''"
    by (simp_all add: find_route_main_module split: if_splits)
  from p show "\<exists>b. fst (serve req st) = Response 200 b"
  proof
    assume h: "req_path req = ''/health''"
    show ?thesis by (simp add: serve_health [OF a m h])
  next
    assume u: "req_path req = ''/api/users''"
    show ?thesis by (simp add: serve_users [OF a m u])
  qed
qed

theorem handlers_return_normally_witness:
  "find_route (routes (app (main_module ''__main__'' [])))
       (req_method \<lparr>req_method = GET, req_path = ''/health'', query = [], headers = [], body = []\<rparr>)
       (req_path \<lparr>req_method = GET, req_path = ''/health'', query = [], headers = [], body = []\<rparr>) \<noteq> None
   \<and> (\<exists>b. fst (serve \<lparr>req_method = GET, req_path = ''/health'', query = [], headers = [],
                       body = []\<rparr> (main_module ''__main__'' [])) = Response 200 b)"
  using handlers_return_normally [where s = "()" and st = "main_module ''__main__'' []"
      and name = "''__main__''" and running = "[]"
      and req = "\<lparr>req_method = GET, req_path = ''/health'', query = [], headers = [], body = []\<rparr>"]
  by (simp add: find_route_main_module)

text \<open>
  Claim C6: every \<open>HealthResponse\<close> that occurs in a value returned by an endpoint
  of the module, in any state, has status "healthy" and version "1.0.0"; both fields are
  present and not empty.
\<close>

theorem health_response_invariant:
  "fst (call e s) = Inr v \<Longrightarrow> m \<in> set (models_of v) \<Longrightarrow>
     HealthResponse.status m = ''healthy'' \<and> HealthResponse.version m = ''1.0.0''
     \<and> HealthResponse.status m \<noteq> [] \<and> HealthResponse.version m \<noteq> []"
  by (cases e) (auto simp add: health_check_def get_users_def)

theorem health_response_invariant_witness:
  "fst (call Health_check (main_module ''__main__'' [])) =
     Inr (PyModel \<lparr>status = ''healthy'', HealthResponse.version = ''1.0.0''\<rparr>)
   \<and> \<lparr>status = ''healthy'', HealthResponse.version = ''1.0.0''\<rparr>
       \<in> set (models_of (PyModel \<lparr>status = ''healthy'', HealthResponse.version = ''1.0.0''\<rparr>))
   \<and> HealthResponse.status \<lparr>status = ''healthy'', HealthResponse.version = ''1.0.0''\<rparr> \<noteq> []
   \<and> HealthResponse.version \<lparr>status = ''healthy'', HealthResponse.version = ''1.0.0''\<rparr> \<noteq> []"
proof -
  have a: "fst (call Health_check (main_module ''__main__'' [])) =
     Inr (PyModel \<lparr>status = ''healthy'', HealthResponse.version = ''1.0.0''\<rparr>)"
    by (simp add: health_check_def)
  have b: "\<lparr>status = ''healthy'', HealthResponse.version = ''1.0.0''\<rparr>
       \<in> set (models_of (PyModel \<lparr>status = ''healthy'', HealthResponse.version = ''1.0.0''\<rparr>))"
    by simp
  from health_response_invariant [OF a b] a b show ?thesis by simp
qed

text \<open>
  Claim C7: a call of \<open>health_check\<close> or \<open>get_users\<close> returns the state it was given,
  and its result is the same in every state, so the state is neither written nor read.
  On the object store, a call leaves every object that was allocated before as it was
  and leaves the rest of the state unchanged; the object it returns, and every object
  that one holds, is newly allocated, and read from the store it is the value that the
  handler returns. Two calls in a row return two different objects with equal values.
  After any sequence of calls the objects allocated before it and the rest of the
  state are unchanged.
\<close>

theorem handlers_frame:
  "snd (health_check s) = s \<and> snd (get_users s) = s \<and> snd (call e s) = s
   \<and> fst (health_check s) = fst (health_check s')
   \<and> fst (get_users s) = fst (get_users s')
   \<and> fst (call e s) = fst (call e s')
   \<and> (call_heap e (h, s) = (r, h', t) \<longrightarrow>
        t = s \<and> take (length h) h' = h
        \<and> (\<exists>a v. r = Inr a \<and> length h \<le> a \<and> a < length h'
               \<and> list_all (\<lambda>b. length h \<le> b \<and> b < length h') (refs (h' ! a))
               \<and> value_of 2 h' a = Some v \<and> fst (call e s) = Inr v))
   \<and> (call_heap e (h, s) = (Inr a1, hs1) \<longrightarrow> call_heap e hs1 = (Inr a2, hs2) \<longrightarrow>
        a1 \<noteq> a2 \<and> value_of 2 (fst hs2) a1 = value_of 2 (fst hs2) a2)
   \<and> snd (snd (call_all_heap es (h, s))) = s
   \<and> take (length h) (fst (snd (call_all_heap es (h, s)))) = h"
proof -
  have frame: "snd (health_check s) = s \<and> snd (get_users s) = s \<and> snd (call e s) = s"
    by (simp add: health_check_def get_users_def call_state)
  have noread: "fst (health_check s) = fst (health_check s')
      \<and> fst (get_users s) = fst (get_users s') \<and> fst (call e s) = fst (call e s')"
    by (cases e) (simp_all add: health_check_def get_users_def)
  obtain rs new where all: "call_all_heap es (h, s) = (rs, h @ new, s)"
    using call_all_heap_extends [of es h s] by blast
  then have seq: "snd (snd (call_all_heap es (h, s))) = s
      \<and> take (length h) (fst (snd (call_all_heap es (h, s)))) = h"
    by simp
  from frame noread seq call_heap_fresh [of e h s r h' t]
    call_heap_twice [of e h s a1 hs1 a2 hs2]
  show ?thesis by blast
qed

theorem handlers_frame_witness:
  "call_heap Get_users ([ObjList []], main_module ''__main__'' []) =
     (Inr 3,
      [ObjList [],
       ObjDict [(''id'', AInt 1), (''name'', AStr ''John'')],
       ObjDict [(''id'', AInt 2), (''name'', AStr ''Jane'')],
       ObjList [1, 2]],
      main_module ''__main__'' [])
   \<and> (\<exists>v. value_of 2
        [ObjList [],
         ObjDict [(''id'', AInt 1), (''name'', AStr ''John'')],
         ObjDict [(''id'', AInt 2), (''name'', AStr ''Jane'')],
         ObjList [1, 2]] 3 = Some v
        \<and> fst (call Get_users (main_module ''__main__'' [])) = Inr v)
   \<and> call_heap Health_check ([], ()) =
       (Inr 0, [ObjModel \<lparr>status = ''healthy'', HealthResponse.version = ''1.0.0''\<rparr>], ())
   \<and> call_heap Health_check
         ([ObjModel \<lparr>status = ''healthy'', HealthResponse.version = ''1.0.0''\<rparr>], ()) =
       (Inr 1, [ObjModel \<lparr>status = ''healthy'', HealthResponse.version = ''1.0.0''\<rparr>,
                ObjModel \<lparr>status = ''healthy'', HealthResponse.version = ''1.0.0''\<rparr>], ())
   \<and> (0::nat) \<noteq> 1
   \<and> value_of 2 [ObjModel \<lparr>status = ''healthy'', HealthResponse.version = ''1.0.0''\<rparr>,
                 ObjModel \<lparr>status = ''healthy'', HealthResponse.version = ''1.0.0''\<rparr>] 0 =
     value_of 2 [ObjModel \<lparr>status = ''healthy'', HealthResponse.version = ''1.0.0''\<rparr>,
                 ObjModel \<lparr>status = ''healthy'', HealthResponse.version = ''1.0.0''\<rparr>] 1"
proof -
  have c: "call_heap Get_users ([ObjList []], main_module ''__main__'' []) =
     (Inr 3,
      [ObjList [],
       ObjDict [(''id'', AInt 1), (''name'', AStr ''John'')],
       ObjDict [(''id'', AInt 2), (''name'', AStr ''Jane'')],
       ObjList [1, 2]],
      main_module ''__main__'' [])"
    by (simp add: get_users_heap_def alloc_def)
  have d1: "call_heap Health_check ([], ()) =
       (Inr 0, [ObjModel \<lparr>status = ''healthy'', HealthResponse.version = ''1.0.0''\<rparr>], ())"
    by (simp add: health_check_heap_def alloc_def)
  have d2: "call_heap Health_check
         ([ObjModel \<lparr>status = ''healthy'', HealthResponse.version = ''1.0.0''\<rparr>], ()) =
       (Inr 1, [ObjModel \<lparr>status = ''healthy'', HealthResponse.version = ''1.0.0''\<rparr>,
                ObjModel \<lparr>status = ''healthy'', HealthResponse.version = ''1.0.0''\<rparr>], ())"
    by (simp add: health_check_heap_def alloc_def)
  have "\<exists>a v. (Inr 3 :: exn + addr) = Inr a \<and> value_of 2
        [ObjList [],
         ObjDict [(''id'', AInt 1), (''name'', AStr ''John'')],
         ObjDict [(''id'', AInt 2), (''name'', AStr ''Jane'')],
         ObjList [1, 2]] a = Some v
        \<and> fst (call Get_users (main_module ''__main__'' [])) = Inr v"
    using c handlers_frame [where e = Get_users and h = "[ObjList []]"
        and s = "main_module ''__main__'' []" and s' = "()" and r = "Inr 3"
        and h' = "[ObjList [],
         ObjDict [(''id'', AInt 1), (''name'', AStr ''John'')],
         ObjDict [(''id'', AInt 2), (''name'', AStr ''Jane'')],
         ObjList [1, 2]]"
        and t = "main_module ''__main__'' []" and es = "[]"]
    by blast
  then have v: "\<exists>v. value_of 2
        [ObjList [],
         ObjDict [(''id'', AInt 1), (''name'', AStr ''John'')],
         ObjDict [(''id'', AInt 2), (''name'', AStr ''Jane'')],
         ObjList [1, 2]] 3 = Some v
        \<and> fst (call Get_users (main_module ''__main__'' [])) = Inr v"
    by blast
  have w: "(0::nat) \<noteq> 1
   \<and> value_of 2 [ObjModel \<lparr>status = ''healthy'', HealthResponse.version = ''1.0.0''\<rparr>,
                 ObjModel \<lparr>status = ''healthy'', HealthResponse.version = ''1.0.0''\<rparr>] 0 =
     value_of 2 [ObjModel \<lparr>status = ''healthy'', HealthResponse.version = ''1.0.0''\<rparr>,
                 ObjModel \<lparr>status = ''healthy'', HealthResponse.version = ''1.0.0''\<rparr>] 1"
    using d1 d2 handlers_frame [where e = Health_check and h = "[]" and s = "()" and s' = "()"
        and ?a1.0 = 0 and ?a2.0 = 1
        and ?hs1.0 = "([ObjModel \<lparr>status = ''healthy'', HealthResponse.version = ''1.0.0''\<rparr>], ())"
        and ?hs2.0 = "([ObjModel \<lparr>status = ''healthy'', HealthResponse.version = ''1.0.0''\<rparr>,
                ObjModel \<lparr>status = ''healthy'', HealthResponse.version = ''1.0.0''\<rparr>], ())"
        and es = "[]"]
    by simp
  from c v d1 d2 w show ?thesis by blast
qed

text \<open>
  Claim C8: two calls of \<open>health_check\<close> return equal values, and two calls of
  \<open>get_users\<close> return equal values, whatever the two states are; two GET requests for the
  same one of the two paths get equal responses whatever their queries, headers and bodies,
  whatever \<^verbatim>\<open>__name__\<close> and running servers the module was run with, and whatever
  requests were served before each of them.
\<close>

theorem handlers_deterministic:
  "fst (health_check s1) = fst (health_check s2)
   \<and> fst (get_users s1) = fst (get_users s2)
   \<and> (app st1 = app (main_module name1 running1) \<longrightarrow>
      app st2 = app (main_module name2 running2) \<longrightarrow>
      req_method r1 = GET \<longrightarrow> req_method r2 = GET \<longrightarrow> req_path r1 = req_path r2 \<longrightarrow>
      req_path r1 = ''/health'' \<or> req_path r1 = ''/api/users'' \<longrightarrow>
      fst (serve r1 (snd (serve_all before1 st1))) =
      fst (serve r2 (snd (serve_all before2 st2))))"
proof (intro conjI impI)
  show "fst (health_check s1) = fst (health_check s2)" by (simp add: health_check_def)
  show "fst (get_users s1) = fst (get_users s2)" by (simp add: get_users_def)
next
  assume a1: "app st1 = app (main_module name1 running1)"
    and a2: "app st2 = app (main_module name2 running2)"
    and m1: "req_method r1 = GET" and m2: "req_method r2 = GET"
    and p: "req_path r1 = req_path r2"
    and q: "req_path r1 = ''/health'' \<or> req_path r1 = ''/api/users''"
  from q show "fst (serve r1 (snd (serve_all before1 st1))) =
      fst (serve r2 (snd (serve_all before2 st2)))"
  proof
    assume h: "req_path r1 = ''/health''"
    with p have h2: "req_path r2 = ''/health''" by simp
    show ?thesis
      by (simp add: serve_all_state serve_health [OF a1 m1 h] serve_health [OF a2 m2 h2])
  next
    assume u: "req_path r1 = ''/api/users''"
    with p have u2: "req_path r2 = ''/api/users''" by simp
    show ?thesis
      by (simp add: serve_all_state serve_users [OF a1 m1 u] serve_users [OF a2 m2 u2])
  qed
qed

theorem handlers_deterministic_witness:
  "fst (serve \<lparr>req_method = GET, req_path = ''/api/users'', query = ''a=1'', headers = [], body = []\<rparr>
          (snd (serve_all [] (main_module ''__main__'' [])))) =
   fst (serve \<lparr>req_method = GET, req_path = ''/api/users'', query = ''b=2'',
                headers = [(''x-user'', ''root'')], body = ''text''\<rparr>
          (snd (serve_all
             [\<lparr>req_method = GET, req_path = ''/health'', query = [], headers = [], body = []\<rparr>,
              \<lparr>req_method = DELETE, req_path = ''/api/users'', query = [], headers = [], body = []\<rparr>]
             (main_module ''main'' [\<lparr>server_app = FastAPI ''other'' ''2'', host = ''::1'', port = 80\<rparr>]))))"
  using handlers_deterministic [where ?s1.0 = "()" and ?s2.0 = "()"
      and ?st1.0 = "main_module ''__main__'' []" and ?name1.0 = "''__main__''"
      and ?running1.0 = "[]"
      and ?st2.0 = "main_module ''main'' [\<lparr>server_app = FastAPI ''other'' ''2'', host = ''::1'', port = 80\<rparr>]"
      and ?name2.0 = "''main''"
      and ?running2.0 = "[\<lparr>server_app = FastAPI ''other'' ''2'', host = ''::1'', port = 80\<rparr>]"
      and ?r1.0 = "\<lparr>req_method = GET, req_path = ''/api/users'', query = ''a=1'', headers = [], body = []\<rparr>"
      and ?r2.0 = "\<lparr>req_method = GET, req_path = ''/api/users'', query = ''b=2'',
                headers = [(''x-user'', ''root'')], body = ''text''\<rparr>"
      and ?before1.0 = "[]"
      and ?before2.0 = "[\<lparr>req_method = GET, req_path = ''/health'', query = [], headers = [], body = []\<rparr>,
              \<lparr>req_method = DELETE, req_path = ''/api/users'', query = [], headers = [], body = []\<rparr>]"]
  by simp

text \<open>
  Claim C9: the version field of the value returned by \<open>health_check\<close> is equal to the
  version of the module's application, the keyword argument given to the \<open>FastAPI\<close>
  constructor, and both are "1.0.0".
\<close>

theorem health_version_agrees:
  "fst (health_check s) = Inr (PyModel m) \<Longrightarrow>
     HealthResponse.version m = fastapi.version (app (main_module name running))
     \<and> fastapi.version (app (main_module name running)) = ''1.0.0''"
  by (auto simp add: health_check_def main_module_def FastAPI_def app_get_def Let_def)

theorem health_version_agrees_witness:
  "fst (health_check ()) =
     Inr (PyModel \<lparr>status = ''healthy'', HealthResponse.version = ''1.0.0''\<rparr>)
   \<and> HealthResponse.version \<lparr>status = ''healthy'', HealthResponse.version = ''1.0.0''\<rparr> =
       fastapi.version (app (main_module ''__main__'' []))"
proof -
  have a: "fst (health_check ()) =
     Inr (PyModel \<lparr>status = ''healthy'', HealthResponse.version = ''1.0.0''\<rparr>)"
    by (simp add: health_check_def)
  have b: "HealthResponse.version \<lparr>status = ''healthy'', HealthResponse.version = ''1.0.0''\<rparr> =
       fastapi.version (app (main_module ''__main__'' []))"
    using health_version_agrees [OF a, of "''__main__''" "[]"] by (rule conjunct1)
  from a b show ?thesis by (rule conjI)
qed

text \<open>
  Claim C10: when the module is run with \<^verbatim>\<open>__name__\<close> different from "__main__"
  (an import), the resulting state is the application with its two registered routes and
  the running servers unchanged; the list of servers is left as it was exactly when
  \<^verbatim>\<open>__name__\<close> is not "__main__". The route table after the import is the one
  the constructor made, followed by the two routes of the module.
\<close>

theorem import_starts_no_server:
  "(name \<noteq> ''__main__'' \<longrightarrow>
      main_module name running =
        \<lparr>app = app_get ''/api/users'' None Get_users
                 (app_get ''/health'' (Some HealthResponse_model) Health_check
                    (FastAPI ''API Service'' ''1.0.0'')),
         servers = running\<rparr>)
   \<and> ((servers (main_module name running) = running) = (name \<noteq> ''__main__''))
   \<and> (name \<noteq> ''__main__'' \<longrightarrow>
        routes (app (main_module name running)) =
          routes (FastAPI ''API Service'' ''1.0.0'') @
          [APIRoute \<lparr>route_method = GET, route_path = ''/health'',
             response_model = Some HealthResponse_model, route_endpoint = Health_check\<rparr>,
           APIRoute \<lparr>route_method = GET, route_path = ''/api/users'',
             response_model = None, route_endpoint = Get_users\<rparr>])"
  by (simp add: main_module_def uvicorn_run_def app_get_def Let_def)

theorem import_starts_no_server_witness:
  "''main'' \<noteq> ''__main__''
   \<and> servers (main_module ''main'' []) = []
   \<and> app (main_module ''main'' []) =
       app_get ''/api/users'' None Get_users
         (app_get ''/health'' (Some HealthResponse_model) Health_check
            (FastAPI ''API Service'' ''1.0.0''))"
  using import_starts_no_server [where name = "''main''" and running = "[]"]
  by simp

end
